theory Spec2Isabelle
  imports
    Complex_Main
    "HOL-Library.Char_ord"
    "HOL-Library.List_Lexorder"
    "HOL-Library.Option_ord"
    "HOL-Library.Product_Lexorder"
begin

section \<open>The port scanner of port-scanner.py\<close>

text \<open>
  The program has two functions of interest: \<^verbatim>\<open>scan_port\<close>, which probes one port
  with one TCP connect, and \<^verbatim>\<open>main\<close>, which submits one \<^verbatim>\<open>scan_port\<close> call per port
  of the range to a thread pool, awaits the futures in submission order, and prints
  the sorted list of open ports. A global flag \<^verbatim>\<open>stop_scan\<close> is set by the SIGINT
  handler and read by every probe at entry, by the collecting loop before each
  future, and once more before the program exits.

  Everything the operating system and the scheduler decide is a parameter of the
  model: what \<^verbatim>\<open>connect_ex\<close> answers, whether \<^verbatim>\<open>getservbyport\<close> knows a port, and
  when the signal arrives. The calls a probe makes are recorded as a list of events,
  so that statements about connection attempts and socket release are about data.
\<close>

subsection \<open>Values, exceptions and events\<close>

text \<open>The tuple \<^verbatim>\<open>(port, status, service_name if available)\<close> that \<^verbatim>\<open>scan_port\<close> returns.\<close>

type_synonym port_result = "int \<times> bool \<times> string option"

text \<open>
  The exceptions that can travel through \<^verbatim>\<open>scan_port\<close>. \<^verbatim>\<open>socket.gaierror\<close> is a
  subclass of \<^verbatim>\<open>socket.error\<close> (which is \<^verbatim>\<open>OSError\<close>); the handlers test it first, and
  so does the model, where \<open>OSError\<close> stands for every \<^verbatim>\<open>OSError\<close> that is not a
  \<^verbatim>\<open>gaierror\<close>.
\<close>

datatype py_exception = Gaierror | OSError | ValueError | OverflowError | UnboundLocalError

text \<open>
  \<^verbatim>\<open>sock.connect_ex\<close> returns the errno of the C-level connect (0 on success, the code
  of a refusal, of an unreachable host or network, or of an expired timeout
  otherwise) and raises for every other problem, such as a host name that does not
  resolve.
\<close>

datatype connect_result = Returned int | Raised py_exception

datatype event =
    SocketOpen
  | ConnectEx string int
  | SocketClose
  | Print string
  | ProgressUpdate

record environment =
  socket_create :: "int \<Rightarrow> bool"
    \<comment> \<open>whether \<^verbatim>\<open>socket.socket(...)\<close> succeeds in the probe of this port\<close>
  connect_ex :: "string \<Rightarrow> int \<Rightarrow> connect_result"
    \<comment> \<open>the answer of \<^verbatim>\<open>sock.connect_ex((target, port))\<close>\<close>
  getservbyport :: "int \<Rightarrow> string option"
    \<comment> \<open>\<^verbatim>\<open>socket.getservbyport(port)\<close>; \<open>None\<close> when it raises\<close>

subsection \<open>scan_port\<close>

text \<open>
  \<^verbatim>\<open>sock.settimeout(timeout)\<close> (line 67): the exception it raises, if any. The
  interpreter converts the seconds to a signed 64-bit count of nanoseconds and
  raises \<^verbatim>\<open>OverflowError\<close> when that does not fit (a timeout beyond about 9.22e9
  seconds); then it raises \<^verbatim>\<open>ValueError\<close> on a negative value. The timeout is a
  real number here: the rounding of a float next to the bound, and the values
  \<^verbatim>\<open>nan\<close> and \<^verbatim>\<open>inf\<close> (which raise as well), are not represented.
\<close>

definition settimeout :: "real \<Rightarrow> py_exception option" where
  "settimeout timeout =
     (if timeout * 1000000000 < - 9223372036854775808
         \<or> 9223372036854775807 < timeout * 1000000000
      then Some OverflowError
      else if timeout < 0 then Some ValueError
      else None)"

text \<open>
  The body of the \<^verbatim>\<open>try\<close> statement (lines 66 to 76). The third component says
  whether the local \<^verbatim>\<open>sock\<close> was bound when the body was left. The lookup of the
  service name has its own bare \<^verbatim>\<open>except\<close>, which turns every failure into the
  literal \<^verbatim>\<open>"unknown"\<close>.
\<close>

definition try_body ::
  "environment \<Rightarrow> string \<Rightarrow> int \<Rightarrow> real \<Rightarrow> (py_exception + port_result) \<times> event list \<times> bool" where
  "try_body env target port timeout =
     (if \<not> socket_create env port then (Inl OSError, [], False)
      else
        (case settimeout timeout of
           Some e \<Rightarrow> (Inl e, [SocketOpen], True)
         | None \<Rightarrow>
             (case connect_ex env target port of
                Raised e \<Rightarrow> (Inl e, [SocketOpen, ConnectEx target port], True)
              | Returned result \<Rightarrow>
                  if result = 0 then
                    (let service = (case getservbyport env port of
                                      Some name \<Rightarrow> name
                                    | None \<Rightarrow> ''unknown'')
                     in (Inr (port, True, Some service),
                         [SocketOpen, ConnectEx target port], True))
                  else (Inr (port, False, None), [SocketOpen, ConnectEx target port], True))))"

text \<open>
  The two \<^verbatim>\<open>except\<close> clauses (lines 78 to 83), in the order of the source. The
  messages are the printed texts without their colour codes.
\<close>

fun except_clauses ::
  "int \<Rightarrow> py_exception + port_result \<Rightarrow> (py_exception + port_result) \<times> event list" where
  "except_clauses port (Inl Gaierror) =
     (Inr (port, False, None), [Print ''[!] Hostname could not be resolved''])"
| "except_clauses port (Inl OSError) =
     (Inr (port, False, None), [Print ''[!] Could not connect to server''])"
| "except_clauses port outcome = (outcome, [])"

text \<open>
  The \<^verbatim>\<open>finally\<close> clause (lines 84 to 87). When \<^verbatim>\<open>socket.socket\<close> itself failed,
  \<^verbatim>\<open>sock\<close> is unbound and \<^verbatim>\<open>sock.close()\<close> raises \<^verbatim>\<open>UnboundLocalError\<close>, which replaces
  whatever the handlers returned. \<open>progress_bar\<close> is the truth value of the global
  of that name.
\<close>

definition finally_clause ::
  "bool \<Rightarrow> bool \<Rightarrow> py_exception + port_result \<Rightarrow> (py_exception + port_result) \<times> event list" where
  "finally_clause sock_bound progress_bar outcome =
     (if \<not> sock_bound then (Inl UnboundLocalError, [])
      else (outcome, SocketClose # (if progress_bar then [ProgressUpdate] else [])))"

text \<open>
  \<^verbatim>\<open>scan_port(target, port, timeout)\<close>, with the two globals it reads as arguments:
  \<open>stop_scan\<close> is the value of the flag at line 62.
\<close>

definition scan_port ::
  "environment \<Rightarrow> bool \<Rightarrow> bool \<Rightarrow> string \<Rightarrow> int \<Rightarrow> real \<Rightarrow> (py_exception + port_result) \<times> event list" where
  "scan_port env stop_scan progress_bar target port timeout =
     (if stop_scan then (Inr (port, False, None), [])
      else
        (case try_body env target port timeout of
           (outcome, tried, sock_bound) \<Rightarrow>
             (case except_clauses port outcome of
                (handled, printed) \<Rightarrow>
                  (case finally_clause sock_bound progress_bar handled of
                     (final, cleanup) \<Rightarrow> (final, tried @ printed @ cleanup)))))"

subsection \<open>The signal and the scheduler\<close>

text \<open>
  \<^verbatim>\<open>signal_handler\<close> sets \<^verbatim>\<open>stop_scan\<close> to true and nothing ever resets it. The main
  thread reads the flag at the top of each iteration of the collecting loop (line
  135) and once at line 170. \<open>sigint_at = Some t\<close> means that iteration \<open>t\<close> is the
  first one whose read happens after the handler ran (a \<open>t\<close> beyond the last
  iteration: the signal came after the loop's last read and before line 170);
  \<open>None\<close> means that no signal came before line 170. Which probes read the flag after
  the handler ran is up to the thread pool: \<open>probe_after_sigint\<close>.
\<close>

record schedule =
  sigint_at :: "nat option"
  probe_after_sigint :: "int \<Rightarrow> bool"

definition stop_seen_by_probe :: "schedule \<Rightarrow> int \<Rightarrow> bool" where
  "stop_seen_by_probe sched port = (sigint_at sched \<noteq> None \<and> probe_after_sigint sched port)"

definition stop_seen_by_loop :: "schedule \<Rightarrow> nat \<Rightarrow> bool" where
  "stop_seen_by_loop sched i = (case sigint_at sched of None \<Rightarrow> False | Some t \<Rightarrow> t \<le> i)"

definition stop_seen_at_exit :: "schedule \<Rightarrow> bool" where
  "stop_seen_at_exit sched = (sigint_at sched \<noteq> None)"

subsection \<open>main\<close>

text \<open>What the collecting loop (lines 134 to 145) has done so far.\<close>

datatype message = PortIsOpen int "string option" | ErrorProcessingResult py_exception

record collector =
  results :: "port_result list"
  awaited :: nat
  written :: "message list"

text \<open>
  The loop over the futures, in submission order; \<open>i\<close> is the index of the
  iteration. \<^verbatim>\<open>future.result()\<close> gives the tuple of the probe or re-raises its
  exception, which \<^verbatim>\<open>except Exception\<close> reports and drops.
\<close>

fun collect ::
  "schedule \<Rightarrow> nat \<Rightarrow> (py_exception + port_result) list \<Rightarrow> collector \<Rightarrow> collector" where
  "collect sched i [] st = st"
| "collect sched i (future # rest) st =
     (if stop_seen_by_loop sched i then st
      else
        (case future of
           Inr result \<Rightarrow>
             if fst (snd result) then
               collect sched (Suc i) rest
                 (st\<lparr>results := results st @ [result],
                    awaited := Suc (awaited st),
                    written := written st @ [PortIsOpen (fst result) (snd (snd result))]\<rparr>)
             else collect sched (Suc i) rest (st\<lparr>awaited := Suc (awaited st)\<rparr>)
         | Inl e \<Rightarrow>
             collect sched (Suc i) rest
               (st\<lparr>awaited := Suc (awaited st),
                  written := written st @ [ErrorProcessingResult e]\<rparr>)))"

datatype exit_status = ExitNormal | SystemExit int | Uncaught py_exception

record scan_run =
  submitted :: "int list"
    \<comment> \<open>the ports given to \<^verbatim>\<open>executor.submit\<close>, in order\<close>
  futures :: "((py_exception + port_result) \<times> event list) list"
    \<comment> \<open>what each submitted probe returned or raised, and the calls it made\<close>
  collected :: collector
  open_ports :: "port_result list"
    \<comment> \<open>the rows of the printed table: \<^verbatim>\<open>sorted(results)\<close>\<close>
  interrupted :: bool
    \<comment> \<open>whether "Scan was interrupted before completion" is printed\<close>
  exit_status :: exit_status

text \<open>
  \<^verbatim>\<open>main\<close> after the parsing of the arguments. \<^verbatim>\<open>range(start_port, end_port + 1)\<close> is
  \<open>[start_port..end_port]\<close>. \<^verbatim>\<open>ThreadPoolExecutor\<close> raises \<^verbatim>\<open>ValueError\<close> when
  \<^verbatim>\<open>max_workers\<close> is not positive; nothing is submitted then, the \<^verbatim>\<open>finally\<close> clause
  prints the empty table and the exception leaves \<^verbatim>\<open>main\<close>. Every submitted probe
  runs: leaving the \<^verbatim>\<open>with\<close> block waits for the pool, also after the \<^verbatim>\<open>break\<close>. The
  progress bar is true as a condition when its total is positive. Tuples are
  compared lexicographically, as \<^verbatim>\<open>sorted\<close> does. The handler for
  \<^verbatim>\<open>KeyboardInterrupt\<close> is not modelled: SIGINT has a handler of its own, so the
  interpreter never raises that exception. Neither is the limit of \<^verbatim>\<open>len\<close> at line
  110, which raises \<^verbatim>\<open>OverflowError\<close> for a range of more than \<open>2\<^sup>6\<^sup>3 - 1\<close> ports:
  the lists of the model have no bound, and no range of port numbers comes near it.
\<close>

definition main ::
  "environment \<Rightarrow> schedule \<Rightarrow> string \<Rightarrow> int \<Rightarrow> int \<Rightarrow> int \<Rightarrow> real \<Rightarrow> scan_run" where
  "main env sched target start_port end_port threads timeout =
     (let ports = [start_port..end_port];
          total_ports = length ports;
          progress_bar = (0 < total_ports);
          pool_ok = (0 < threads);
          work = (if pool_ok then ports else []);
          probes = map (\<lambda>port. scan_port env (stop_seen_by_probe sched port)
                                 progress_bar target port timeout) work;
          st = collect sched 0 (map fst probes) \<lparr>results = [], awaited = 0, written = []\<rparr>;
          stop_scan = stop_seen_at_exit sched
      in \<lparr>submitted = work,
          futures = probes,
          collected = st,
          open_ports = sort (results st),
          interrupted = stop_scan,
          exit_status = (if stop_scan then SystemExit 1
                         else if pool_ok then ExitNormal
                         else Uncaught ValueError)\<rparr>)"

subsection \<open>Reading the events and the outcomes\<close>

text \<open>
  Whether a probe still holds its socket after the given calls; \<open>held\<close> is the state
  before them.
\<close>

fun socket_held :: "bool \<Rightarrow> event list \<Rightarrow> bool" where
  "socket_held held [] = held"
| "socket_held held (SocketOpen # es) = socket_held True es"
| "socket_held held (SocketClose # es) = socket_held False es"
| "socket_held held (e # es) = socket_held held es"

text \<open>The outcome of a future is an open port: a tuple whose status is true.\<close>

abbreviation open_outcome :: "py_exception + port_result \<Rightarrow> bool" where
  "open_outcome \<equiv> (\<lambda>outcome. case outcome of Inr r \<Rightarrow> fst (snd r) | Inl e \<Rightarrow> False)"

text \<open>A message of the loop that reports the exception of a future.\<close>

abbreviation error_message :: "message \<Rightarrow> bool" where
  "error_message \<equiv>
     (\<lambda>m. case m of ErrorProcessingResult e \<Rightarrow> True | PortIsOpen port service \<Rightarrow> False)"

text \<open>
  The answer of \<^verbatim>\<open>connect_ex\<close> is one that \<^verbatim>\<open>scan_port\<close> turns into a tuple: an errno,
  or one of the two exceptions it has a handler for.
\<close>

abbreviation raises_only_socket_errors :: "connect_result \<Rightarrow> bool" where
  "raises_only_socket_errors \<equiv>
     (\<lambda>answer. case answer of Raised e \<Rightarrow> e = Gaierror \<or> e = OSError | Returned errno \<Rightarrow> True)"

subsection \<open>Sample environments and schedules\<close>

text \<open>
  A host that listens on 22, 80 and 81, lets the connect to port 7 time out (errno
  11, \<^verbatim>\<open>EWOULDBLOCK\<close>) and refuses every other port (errno 111, \<^verbatim>\<open>ECONNREFUSED\<close>);
  the services database knows 22 and 80.
\<close>

definition sample_host :: environment where
  "sample_host =
     \<lparr>socket_create = (\<lambda>port. True),
      connect_ex = (\<lambda>target port.
         if port = 22 \<or> port = 80 \<or> port = 81 then Returned 0
         else if port = 7 then Returned 11
         else Returned 111),
      getservbyport = (\<lambda>port.
         if port = 22 then Some ''ssh''
         else if port = 80 then Some ''http''
         else None)\<rparr>"


definition no_sigint :: schedule where
  "no_sigint = \<lparr>sigint_at = None, probe_after_sigint = (\<lambda>port. False)\<rparr>"


section \<open>Properties of a probe\<close>

lemma except_clauses_Inl:
  "except_clauses port (Inl e) =
     (if e = Gaierror then (Inr (port, False, None), [Print ''[!] Hostname could not be resolved''])
      else if e = OSError then (Inr (port, False, None), [Print ''[!] Could not connect to server''])
      else (Inl e, []))"
  by (cases e) simp_all

lemma except_clauses_Inr: "except_clauses port (Inr r) = (Inr r, [])"
  by simp

lemmas scan_port_unfold =
  scan_port_def try_body_def settimeout_def finally_clause_def
  except_clauses_Inl except_clauses_Inr Let_def

lemma scan_port_port:
  "fst (scan_port env stop pb target port timeout) = Inr r \<Longrightarrow> fst r = port"
  by (auto simp: scan_port_unfold split: if_splits connect_result.splits)

lemma probe_outcome:
  assumes "socket_create env port"
  shows "(case fst (scan_port env False pb target port timeout) of
            Inr r \<Rightarrow> fst r = port
                     \<and> settimeout timeout = None
                     \<and> raises_only_socket_errors (connect_ex env target port)
          | Inl e \<Rightarrow> \<not> (settimeout timeout = None
                     \<and> raises_only_socket_errors (connect_ex env target port)))"
  using assms
  by (auto simp: scan_port_unfold split: if_splits connect_result.splits py_exception.splits)

text \<open>
  C5. A probe that finds \<^verbatim>\<open>stop_scan\<close> set at entry returns \<open>(port, False, None)\<close> at
  once: it returns normally, prints no error and makes no call at all, so no socket
  is created and no connect is attempted.
\<close>

theorem cancelled_probe_returns_closed:
  "scan_port env True progress_bar target port timeout = (Inr (port, False, None), [])"
  by (simp add: scan_port_def)

text \<open>
  C6. A probe whose connect was attempted and returned 0 yields \<open>(port, True,
  service)\<close>, where the service is the name \<^verbatim>\<open>getservbyport\<close> gives and the literal
  \<^verbatim>\<open>"unknown"\<close> when that lookup raises. The probe returns normally whatever the
  lookup does, and prints nothing.
\<close>

theorem connected_probe_open_with_service:
  assumes "ConnectEx target port \<in> set (snd (scan_port env stop_scan progress_bar target port timeout))"
    and "connect_ex env target port = Returned 0"
  shows "scan_port env stop_scan progress_bar target port timeout =
           (Inr (port, True,
                 Some (case getservbyport env port of Some name \<Rightarrow> name | None \<Rightarrow> ''unknown'')),
            SocketOpen # ConnectEx target port # SocketClose #
              (if progress_bar then [ProgressUpdate] else []))"
  using assms
  by (auto simp: scan_port_unfold split: if_splits connect_result.splits)

theorem connected_probe_open_with_service_witness:
  "ConnectEx ''host'' 22 \<in> set (snd (scan_port sample_host False True ''host'' 22 1))
   \<and> connect_ex sample_host ''host'' 22 = Returned 0
   \<and> fst (scan_port sample_host False True ''host'' 22 1) = Inr (22, True, Some ''ssh'')
   \<and> ConnectEx ''host'' 81 \<in> set (snd (scan_port sample_host False True ''host'' 81 1))
   \<and> connect_ex sample_host ''host'' 81 = Returned 0
   \<and> fst (scan_port sample_host False True ''host'' 81 1) = Inr (81, True, Some ''unknown'')"
proof -
  have a: "ConnectEx ''host'' 22 \<in> set (snd (scan_port sample_host False True ''host'' 22 1))"
    by (simp add: scan_port_unfold sample_host_def)
  have b: "connect_ex sample_host ''host'' 22 = Returned 0"
    by (simp add: sample_host_def)
  have c: "ConnectEx ''host'' 81 \<in> set (snd (scan_port sample_host False True ''host'' 81 1))"
    by (simp add: scan_port_unfold sample_host_def)
  have d: "connect_ex sample_host ''host'' 81 = Returned 0"
    by (simp add: sample_host_def)
  have "fst (scan_port sample_host False True ''host'' 22 1) = Inr (22, True, Some ''ssh'')"
    using connected_probe_open_with_service [OF a b] by (simp add: sample_host_def)
  moreover have "fst (scan_port sample_host False True ''host'' 81 1) = Inr (81, True, Some ''unknown'')"
    using connected_probe_open_with_service [OF c d] by (simp add: sample_host_def)
  ultimately show ?thesis using a b c d by simp
qed

text \<open>
  C7. A probe whose connect was attempted and came back with a non-zero errno (a
  refusal, an unreachable host or network, an expired timeout) yields \<open>(port, False,
  None)\<close>, returns normally and prints nothing. The outcome does not mention the
  errno, so a timeout and a refusal give the same result. When \<^verbatim>\<open>connect_ex\<close> raises
  a \<^verbatim>\<open>socket.error\<close> other than \<^verbatim>\<open>gaierror\<close>, the tuple is the same again.
\<close>

theorem failed_connect_closed:
  assumes "ConnectEx target port \<in> set (snd (scan_port env stop_scan progress_bar target port timeout))"
    and "connect_ex env target port = Returned errno \<and> errno \<noteq> 0
         \<or> connect_ex env target port = Raised OSError"
  shows "fst (scan_port env stop_scan progress_bar target port timeout) = Inr (port, False, None)
         \<and> (connect_ex env target port \<noteq> Raised OSError \<longrightarrow>
              snd (scan_port env stop_scan progress_bar target port timeout) =
                SocketOpen # ConnectEx target port # SocketClose #
                  (if progress_bar then [ProgressUpdate] else []))"
  using assms
  by (auto simp: scan_port_unfold split: if_splits connect_result.splits)

theorem failed_connect_closed_witness:
  "ConnectEx ''host'' 7 \<in> set (snd (scan_port sample_host False True ''host'' 7 1))
   \<and> connect_ex sample_host ''host'' 7 = Returned 11
   \<and> ConnectEx ''host'' 8 \<in> set (snd (scan_port sample_host False True ''host'' 8 1))
   \<and> connect_ex sample_host ''host'' 8 = Returned 111
   \<and> scan_port sample_host False True ''host'' 7 1 =
       (Inr (7, False, None), [SocketOpen, ConnectEx ''host'' 7, SocketClose, ProgressUpdate])
   \<and> scan_port sample_host False True ''host'' 8 1 =
       (Inr (8, False, None), [SocketOpen, ConnectEx ''host'' 8, SocketClose, ProgressUpdate])"
proof -
  have a: "ConnectEx ''host'' 7 \<in> set (snd (scan_port sample_host False True ''host'' 7 1))"
    by (simp add: scan_port_unfold sample_host_def)
  have b: "connect_ex sample_host ''host'' 7 = Returned 11"
    by (simp add: sample_host_def)
  have c: "ConnectEx ''host'' 8 \<in> set (snd (scan_port sample_host False True ''host'' 8 1))"
    by (simp add: scan_port_unfold sample_host_def)
  have d: "connect_ex sample_host ''host'' 8 = Returned 111"
    by (simp add: sample_host_def)
  have "scan_port sample_host False True ''host'' 7 1 =
          (Inr (7, False, None), [SocketOpen, ConnectEx ''host'' 7, SocketClose, ProgressUpdate])"
    using failed_connect_closed [OF a, of 11] b by (simp add: prod_eq_iff)
  moreover have "scan_port sample_host False True ''host'' 8 1 =
          (Inr (8, False, None), [SocketOpen, ConnectEx ''host'' 8, SocketClose, ProgressUpdate])"
    using failed_connect_closed [OF c, of 111] d by (simp add: prod_eq_iff)
  ultimately show ?thesis using a b c d by simp
qed

text \<open>
  C9. A probe that created a socket closes it before it returns or raises: on every
  path the events contain the close, and after the last event the socket is not
  held. This covers the connect that succeeds, the one that fails, the handled
  exceptions and the exception that leaves the probe.
\<close>

theorem acquired_socket_released:
  assumes "SocketOpen \<in> set (snd (scan_port env stop_scan progress_bar target port timeout))"
  shows "SocketClose \<in> set (snd (scan_port env stop_scan progress_bar target port timeout))
         \<and> \<not> socket_held False (snd (scan_port env stop_scan progress_bar target port timeout))"
  using assms
  by (auto simp: scan_port_unfold split: if_splits connect_result.splits)

theorem acquired_socket_released_witness:
  "SocketOpen \<in> set (snd (scan_port sample_host False True ''host'' 22 (- 1)))
   \<and> fst (scan_port sample_host False True ''host'' 22 (- 1)) = Inl ValueError
   \<and> SocketClose \<in> set (snd (scan_port sample_host False True ''host'' 22 (- 1)))
   \<and> \<not> socket_held False (snd (scan_port sample_host False True ''host'' 22 (- 1)))"
proof -
  have a: "SocketOpen \<in> set (snd (scan_port sample_host False True ''host'' 22 (- 1)))"
    by (simp add: scan_port_unfold sample_host_def)
  have b: "fst (scan_port sample_host False True ''host'' 22 (- 1)) = Inl ValueError"
    by (simp add: scan_port_unfold sample_host_def)
  from acquired_socket_released [OF a] a b show ?thesis by simp
qed

section \<open>Properties of a scan\<close>

subsection \<open>The collecting loop\<close>

lemma collect_sorted:
  assumes "list_all2 (\<lambda>out p. \<forall>r. out = Inr r \<longrightarrow> fst r = p) outs ps"
    and "sorted_wrt (<) ps"
    and "sorted_wrt (<) (map fst (results st))"
    and "\<forall>r\<in>set (results st). \<forall>p\<in>set ps. fst r < p"
  shows "sorted_wrt (<) (map fst (results (collect sched i outs st)))"
  using assms
proof (induction outs ps arbitrary: i st rule: list_all2_induct)
  case Nil
  then show ?case by simp
next
  case (Cons out outs p ps)
  show ?case
  proof (cases "stop_seen_by_loop sched i")
    case True
    with Cons.prems show ?thesis by simp
  next
    case False
    show ?thesis
    proof (cases out)
      case (Inl e)
      with False Cons show ?thesis by simp
    next
      case (Inr r)
      show ?thesis
      proof (cases "fst (snd r)")
        case closed: False
        with False Inr Cons show ?thesis by simp
      next
        case True
        from Inr Cons.hyps have p: "fst r = p" by simp
        let ?st = "st\<lparr>results := results st @ [r], awaited := Suc (awaited st),
                      written := written st @ [PortIsOpen (fst r) (snd (snd r))]\<rparr>"
        have 1: "sorted_wrt (<) (map fst (results ?st))"
          using Cons.prems p by (auto simp: sorted_wrt_append)
        have 2: "\<forall>r\<in>set (results ?st). \<forall>q\<in>set ps. fst r < q"
          using Cons.prems p by auto
        have 3: "sorted_wrt (<) ps" using Cons.prems by simp
        from Cons.IH [OF 3 1 2, of "Suc i"] False Inr True show ?thesis by simp
      qed
    qed
  qed
qed

lemma sorted_by_port: 
  fixes xs :: "port_result list"
  assumes "sorted_wrt (<) (map fst xs)" shows "sorted xs"
proof -
  from assms have "sorted_wrt (\<lambda>a b. fst a < fst b) xs" by (simp add: sorted_wrt_map)
  then show ?thesis
    by (rule sorted_wrt_mono_rel [rotated]) (auto simp: less_eq_prod_def)
qed


lemma collect_all:
  assumes "sigint_at sched = None"
  shows "map Inr (results (collect sched i outs st)) =
           map Inr (results st) @ filter open_outcome outs
         \<and> awaited (collect sched i outs st) = awaited st + length outs"
proof (induction outs arbitrary: i st)
  case Nil
  then show ?case by simp
next
  case (Cons out outs)
  from assms have ns: "\<not> stop_seen_by_loop sched i" by (simp add: stop_seen_by_loop_def)
  show ?case using ns Cons.IH by (cases out) simp_all
qed

lemma collect_errors:
  assumes "sigint_at sched = None"
  shows "filter error_message (written (collect sched i outs st)) =
           filter error_message (written st) @
           concat (map (\<lambda>out. case out of Inl e \<Rightarrow> [ErrorProcessingResult e] | Inr r \<Rightarrow> []) outs)"
proof (induction outs arbitrary: i st)
  case Nil
  then show ?case by simp
next
  case (Cons out outs)
  from assms have ns: "\<not> stop_seen_by_loop sched i" by (simp add: stop_seen_by_loop_def)
  show ?case using ns Cons.IH by (cases out) simp_all
qed


subsection \<open>The fields of a run\<close>

lemma main_submitted:
  "submitted (main env sched target start_port end_port threads timeout) =
     (if 0 < threads then [start_port..end_port] else [])"
  by (simp add: main_def Let_def)

lemma main_futures:
  "futures (main env sched target start_port end_port threads timeout) =
     map (\<lambda>port. scan_port env (stop_seen_by_probe sched port)
                   (0 < length [start_port..end_port]) target port timeout)
       (submitted (main env sched target start_port end_port threads timeout))"
  by (simp add: main_def Let_def)

lemma main_collected:
  "collected (main env sched target start_port end_port threads timeout) =
     collect sched 0 (map fst (futures (main env sched target start_port end_port threads timeout)))
       \<lparr>results = [], awaited = 0, written = []\<rparr>"
  by (simp add: main_def Let_def)

lemma main_open_ports:
  "open_ports (main env sched target start_port end_port threads timeout) =
     sort (results (collected (main env sched target start_port end_port threads timeout)))"
  by (simp add: main_def Let_def)


lemma main_exit_status:
  "exit_status (main env sched target start_port end_port threads timeout) =
     (if sigint_at sched \<noteq> None then SystemExit 1
      else if 0 < threads then ExitNormal else Uncaught ValueError)"
  by (simp add: main_def Let_def stop_seen_at_exit_def)

lemma main_outcome_ports:
  "list_all2 (\<lambda>out p. \<forall>r. out = Inr r \<longrightarrow> fst r = p)
     (map fst (futures (main env sched target start_port end_port threads timeout)))
     (submitted (main env sched target start_port end_port threads timeout))"
  unfolding main_futures list_all2_map1 list_all2_same by (blast dest: scan_port_port)

lemma main_results_sorted:
  "sorted_wrt (<) (map fst (results (collected (main env sched target start_port end_port threads timeout))))"
proof -
  let ?run = "main env sched target start_port end_port threads timeout"
  have w: "sorted_wrt (<) (submitted ?run)"
    by (simp add: main_submitted strict_sorted_iff)
  note l = main_outcome_ports [of env sched target start_port end_port threads timeout]
  show ?thesis
    unfolding main_collected by (rule collect_sorted [OF l w]) simp_all
qed

lemma main_sort_id:
  "sort (results (collected (main env sched target start_port end_port threads timeout)))
     = results (collected (main env sched target start_port end_port threads timeout))"
  by (rule sorted_sort_id [OF sorted_by_port [OF main_results_sorted]])

lemma connect_count:
  "distinct ps \<Longrightarrow>
   length (filter (\<lambda>e. e = ConnectEx target p)
     (concat (map (\<lambda>q. snd (scan_port env (stop q) pb target q timeout)) ps))) \<le> 1"
proof (induction ps)
  case Nil
  then show ?case by simp
next
  case (Cons q ps)
  have other: "\<And>q. q \<noteq> p \<Longrightarrow>
      filter (\<lambda>e. e = ConnectEx target p) (snd (scan_port env (stop q) pb target q timeout)) = []"
    by (auto simp: scan_port_unfold split: if_splits connect_result.splits)
  have one: "length (filter (\<lambda>e. e = ConnectEx target p)
      (snd (scan_port env (stop p) pb target p timeout))) \<le> 1"
    by (auto simp: scan_port_unfold split: if_splits connect_result.splits)
  show ?case
  proof (cases "q = p")
    case True
    with Cons.prems have "p \<notin> set ps" by simp
    then have "filter (\<lambda>e. e = ConnectEx target p)
        (concat (map (\<lambda>q. snd (scan_port env (stop q) pb target q timeout)) ps)) = []"
      by (induction ps) (auto simp: other)
    with one True show ?thesis by simp
  next
    case False
    with Cons other show ?thesis by simp
  qed
qed


subsection \<open>The report\<close>

text \<open>
  C3. In every run, interrupted or not, and whatever the pool and the signal did, the
  rows of the printed table have strictly ascending port numbers.
\<close>

theorem open_ports_strictly_ascending:
  "sorted_wrt (<) (map fst (open_ports (main env sched target start_port end_port threads timeout)))"
  unfolding main_open_ports main_sort_id by (rule main_results_sorted)

text \<open>
  C10. The loop awaits the futures in submission order, which is ascending port
  order, so \<^verbatim>\<open>results\<close> is already sorted when the table is printed:
  \<^verbatim>\<open>sorted(results)\<close> is \<^verbatim>\<open>results\<close>.
\<close>

theorem final_sort_is_identity:
  "open_ports (main env sched target start_port end_port threads timeout) =
     results (collected (main env sched target start_port end_port threads timeout))"
  unfolding main_open_ports by (rule main_sort_id)

subsection \<open>Cancellation\<close>



subsection \<open>One probe per port\<close>

text \<open>
  C8, as stated, fails: a probe can raise, and then its future holds an exception
  and no port result. \<^verbatim>\<open>scan_port\<close> handles \<^verbatim>\<open>gaierror\<close> and \<^verbatim>\<open>socket.error\<close> only;
  anything else reaches \<^verbatim>\<open>future.result()\<close> in \<^verbatim>\<open>main\<close>, whose \<^verbatim>\<open>except Exception\<close>
  writes "Error processing result" and goes on. With the valid range 79 to 82, 50
  threads, no signal, every socket created and the positive timeout of 1e10 seconds,
  \<^verbatim>\<open>settimeout\<close> raises \<^verbatim>\<open>OverflowError\<close> in each of the four probes: four errors are
  reported and not one port result is produced.
\<close>

theorem valid_scan_without_port_results:
  "(1::int) \<le> 79 \<and> (79::int) \<le> 82 \<and> (82::int) \<le> 65535 \<and> (0::int) < 50
   \<and> (0::real) < 10000000000 \<and> sigint_at no_sigint = None
   \<and> socket_create sample_host 79 \<and> socket_create sample_host 80
   \<and> socket_create sample_host 81 \<and> socket_create sample_host 82
   \<and> futures (main sample_host no_sigint ''host'' 79 82 50 10000000000) =
       [(Inl OverflowError, [SocketOpen, SocketClose, ProgressUpdate]),
        (Inl OverflowError, [SocketOpen, SocketClose, ProgressUpdate]),
        (Inl OverflowError, [SocketOpen, SocketClose, ProgressUpdate]),
        (Inl OverflowError, [SocketOpen, SocketClose, ProgressUpdate])]
   \<and> results (collected (main sample_host no_sigint ''host'' 79 82 50 10000000000)) = []
   \<and> written (collected (main sample_host no_sigint ''host'' 79 82 50 10000000000)) =
       [ErrorProcessingResult OverflowError, ErrorProcessingResult OverflowError,
        ErrorProcessingResult OverflowError, ErrorProcessingResult OverflowError]
   \<and> exit_status (main sample_host no_sigint ''host'' 79 82 50 10000000000) = ExitNormal"
  by (simp add: main_def scan_port_unfold sample_host_def no_sigint_def
      stop_seen_by_probe_def stop_seen_by_loop_def stop_seen_at_exit_def)

text \<open>
  C8, amended. Take a run over a valid range (\<open>1 \<le> start_port \<le> end_port \<le> 65535\<close>)
  with a positive number of threads and no signal, in which every probe gets its
  socket. Then the ports submitted are \<open>start_port, \<dots>, end_port\<close>, each once;
  there are \<open>end_port - start_port + 1\<close> futures, and the loop awaits every one of
  them; no port sees more than one \<^verbatim>\<open>connect_ex\<close> call in the whole run; the run ends
  normally. The future of a port holds the tuple of that port exactly when
  \<^verbatim>\<open>settimeout\<close> accepts the timeout and \<^verbatim>\<open>connect_ex\<close> raises nothing but a socket
  error; otherwise it holds the exception the probe raised, and the loop reports
  each such exception, in order, instead of a result. So exactly
  \<open>end_port - start_port + 1\<close> port results, one per port in ascending order, are
  produced when \<^verbatim>\<open>settimeout\<close> accepts the timeout and no \<^verbatim>\<open>connect_ex\<close> raises
  anything but a socket error, and not otherwise. (What happens when
  \<^verbatim>\<open>socket.socket\<close> itself fails is left out of this statement.)
\<close>

theorem valid_scan_one_probe_per_port:
  assumes "1 \<le> start_port" and "start_port \<le> end_port" and "end_port \<le> 65535"
    and "0 < threads" and "sigint_at sched = None"
    and "\<forall>port\<in>set [start_port..end_port]. socket_create env port"
  shows "submitted (main env sched target start_port end_port threads timeout) = [start_port..end_port]
       \<and> int (length (futures (main env sched target start_port end_port threads timeout))) =
           end_port - start_port + 1
       \<and> int (awaited (collected (main env sched target start_port end_port threads timeout))) =
           end_port - start_port + 1
       \<and> (\<forall>port. length (filter (\<lambda>e. e = ConnectEx target port)
             (concat (map snd (futures (main env sched target start_port end_port threads timeout)))))
             \<le> 1)
       \<and> list_all2
           (\<lambda>outcome port.
              case outcome of
                Inr r \<Rightarrow> fst r = port
                         \<and> settimeout timeout = None
                         \<and> raises_only_socket_errors (connect_ex env target port)
              | Inl e \<Rightarrow> \<not> (settimeout timeout = None
                         \<and> raises_only_socket_errors (connect_ex env target port)))
           (map fst (futures (main env sched target start_port end_port threads timeout)))
           [start_port..end_port]
       \<and> (settimeout timeout = None
            \<and> (\<forall>port\<in>set [start_port..end_port].
                  raises_only_socket_errors (connect_ex env target port)) \<longrightarrow>
          list_all2 (\<lambda>outcome port. \<exists>r. outcome = Inr r \<and> fst r = port)
            (map fst (futures (main env sched target start_port end_port threads timeout)))
            [start_port..end_port])
       \<and> filter error_message
           (written (collected (main env sched target start_port end_port threads timeout))) =
           concat (map (\<lambda>outcome. case outcome of Inl e \<Rightarrow> [ErrorProcessingResult e] | Inr r \<Rightarrow> [])
             (map fst (futures (main env sched target start_port end_port threads timeout))))
       \<and> exit_status (main env sched target start_port end_port threads timeout) = ExitNormal"
proof -
  let ?run = "main env sched target start_port end_port threads timeout"
  have sub: "submitted ?run = [start_port..end_port]"
    using assms(4) by (simp add: main_submitted)
  have len: "int (length (futures ?run)) = end_port - start_port + 1"
    using assms(2) by (simp add: main_futures sub)
  have aw: "awaited (collected ?run) = length (futures ?run)"
    unfolding main_collected
    using collect_all [OF assms(5), of 0 "map fst (futures ?run)"
        "\<lparr>results = [], awaited = 0, written = []\<rparr>"]
    by simp
  have once: "length (filter (\<lambda>e. e = ConnectEx target port) (concat (map snd (futures ?run)))) \<le> 1"
    for port
    unfolding main_futures sub map_map comp_def
    by (rule connect_count) simp
  have ns: "\<not> stop_seen_by_probe sched port" for port
    using assms(5) by (simp add: stop_seen_by_probe_def)
  have own: "list_all2
           (\<lambda>outcome port.
              case outcome of
                Inr r \<Rightarrow> fst r = port
                         \<and> settimeout timeout = None
                         \<and> raises_only_socket_errors (connect_ex env target port)
              | Inl e \<Rightarrow> \<not> (settimeout timeout = None
                         \<and> raises_only_socket_errors (connect_ex env target port)))
           (map fst (futures ?run)) [start_port..end_port]"
    unfolding main_futures sub list_all2_map1 list_all2_same
    using assms(6) probe_outcome by (simp add: ns)
  have full: "list_all2 (\<lambda>outcome port. \<exists>r. outcome = Inr r \<and> fst r = port)
      (map fst (futures ?run)) [start_port..end_port]"
    if ok: "settimeout timeout = None"
      and sock: "\<forall>port\<in>set [start_port..end_port].
        raises_only_socket_errors (connect_ex env target port)"
    unfolding main_futures sub list_all2_map1 list_all2_same
  proof
    fix port
    assume p: "port \<in> set [start_port..end_port]"
    with assms(6) have "socket_create env port" by blast
    from probe_outcome [OF this, where pb = "0 < length [start_port..end_port]"
        and target = target and timeout = timeout]
      ok sock p
    show "\<exists>r. fst (scan_port env (stop_seen_by_probe sched port)
                 (0 < length [start_port..end_port]) target port timeout) = Inr r \<and> fst r = port"
      by (cases "fst (scan_port env False (0 < length [start_port..end_port]) target port timeout)")
        (auto simp: ns)
  qed
  have err: "filter error_message (written (collected ?run)) =
           concat (map (\<lambda>outcome. case outcome of Inl e \<Rightarrow> [ErrorProcessingResult e] | Inr r \<Rightarrow> [])
             (map fst (futures ?run)))"
    unfolding main_collected
    using collect_errors [OF assms(5), of 0 "map fst (futures ?run)"
        "\<lparr>results = [], awaited = 0, written = []\<rparr>"]
    by simp
  have ex: "exit_status ?run = ExitNormal"
    using assms by (simp add: main_exit_status)
  from aw len have aw': "int (awaited (collected ?run)) = end_port - start_port + 1"
    by simp
  from full have full': "settimeout timeout = None
      \<and> (\<forall>port\<in>set [start_port..end_port].
            raises_only_socket_errors (connect_ex env target port)) \<longrightarrow>
    list_all2 (\<lambda>outcome port. \<exists>r. outcome = Inr r \<and> fst r = port)
      (map fst (futures ?run)) [start_port..end_port]"
    by blast
  show ?thesis
    by (intro conjI allI) (rule sub len aw' once own full' err ex)+
qed

theorem valid_scan_one_probe_per_port_witness:
  "(1::int) \<le> 79 \<and> (79::int) \<le> 82 \<and> (82::int) \<le> 65535 \<and> (0::int) < 50
   \<and> sigint_at no_sigint = None
   \<and> socket_create sample_host 79 \<and> socket_create sample_host 80
   \<and> socket_create sample_host 81 \<and> socket_create sample_host 82
   \<and> settimeout 1 = None
   \<and> submitted (main sample_host no_sigint ''host'' 79 82 50 1) = [79, 80, 81, 82]
   \<and> length (futures (main sample_host no_sigint ''host'' 79 82 50 1)) = 4
   \<and> awaited (collected (main sample_host no_sigint ''host'' 79 82 50 1)) = 4
   \<and> list_all2 (\<lambda>outcome port. \<exists>r. outcome = Inr r \<and> fst r = port)
       (map fst (futures (main sample_host no_sigint ''host'' 79 82 50 1))) [79, 80, 81, 82]
   \<and> filter error_message (written (collected (main sample_host no_sigint ''host'' 79 82 50 1))) = []
   \<and> exit_status (main sample_host no_sigint ''host'' 79 82 50 1) = ExitNormal"
proof -
  have a: "(1::int) \<le> 79" and b: "(79::int) \<le> 82" and c: "(82::int) \<le> 65535"
    and d: "(0::int) < 50" and e: "sigint_at no_sigint = None"
    by (simp_all add: no_sigint_def)
  have f: "\<forall>port\<in>set [79..82]. socket_create sample_host port"
    by (simp add: sample_host_def)
  have g: "settimeout 1 = None"
    by (simp add: settimeout_def)
  have h: "\<forall>port\<in>set [79..82]. raises_only_socket_errors (connect_ex sample_host ''host'' port)"
    by (simp add: sample_host_def)
  have i: "map fst (futures (main sample_host no_sigint ''host'' 79 82 50 1)) =
      [Inr (79, False, None), Inr (80, True, Some ''http''), Inr (81, True, Some ''unknown''),
       Inr (82, False, None)]"
    by (simp add: main_futures main_submitted scan_port_unfold sample_host_def
        no_sigint_def stop_seen_by_probe_def)
  note run = valid_scan_one_probe_per_port [OF a b c d e f, of "''host''" 1]
  from run g h have "list_all2 (\<lambda>outcome port. \<exists>r. outcome = Inr r \<and> fst r = port)
       (map fst (futures (main sample_host no_sigint ''host'' 79 82 50 1))) [79..82]"
    by blast
  moreover have "filter error_message
      (written (collected (main sample_host no_sigint ''host'' 79 82 50 1))) = []"
    using run i by simp
  ultimately show ?thesis using run a b c d e g by (simp add: sample_host_def)
qed

subsection \<open>The range\<close>

text \<open>
  C2, as stated, fails: \<^verbatim>\<open>main\<close> never compares the bounds of the range. With start
  100 and end 50 it raises nothing; it prints the empty table and returns normally.
\<close>

theorem reversed_range_not_rejected:
  "exit_status (main sample_host no_sigint ''host'' 100 50 50 1) = ExitNormal
   \<and> open_ports (main sample_host no_sigint ''host'' 100 50 50 1) = []
   \<and> \<not> interrupted (main sample_host no_sigint ''host'' 100 50 50 1)"
  by (simp add: main_def Let_def no_sigint_def stop_seen_at_exit_def)

text \<open>
  C2, amended. The program has no validation of the range and no
  \<^verbatim>\<open>InvalidRangeError\<close>. When the end is below the start, \<^verbatim>\<open>range(start, end + 1)\<close> is
  empty: nothing is submitted, no probe runs (so no socket call is made), the table
  is empty, and the run ends as any other does: normally, unless a signal came or
  the thread count is not positive.
\<close>

theorem empty_range_scans_nothing:
  assumes "end_port < start_port"
  shows "submitted (main env sched target start_port end_port threads timeout) = []
       \<and> futures (main env sched target start_port end_port threads timeout) = []
       \<and> open_ports (main env sched target start_port end_port threads timeout) = []
       \<and> exit_status (main env sched target start_port end_port threads timeout) =
           (if sigint_at sched \<noteq> None then SystemExit 1
            else if 0 < threads then ExitNormal else Uncaught ValueError)"
proof -
  let ?run = "main env sched target start_port end_port threads timeout"
  have sub: "submitted ?run = []" using assms by (simp add: main_submitted)
  have fut: "futures ?run = []" by (simp add: main_futures sub)
  have "results (collected ?run) = []" by (simp add: main_collected fut)
  then have "open_ports ?run = []" by (simp add: main_open_ports)
  with sub fut show ?thesis by (simp add: main_exit_status)
qed

theorem empty_range_scans_nothing_witness:
  "(50::int) < 100
   \<and> futures (main sample_host no_sigint ''host'' 100 50 50 1) = []
   \<and> open_ports (main sample_host no_sigint ''host'' 100 50 50 1) = []
   \<and> exit_status (main sample_host no_sigint ''host'' 100 50 50 1) = ExitNormal"
proof -
  have a: "(50::int) < 100" by simp
  from empty_range_scans_nothing [OF a, of sample_host no_sigint "''host''" 50 1] a
  show ?thesis by (simp add: no_sigint_def)
qed

subsection \<open>A host name that does not resolve\<close>




end
